theory Spec2Isabelle
  imports Complex_Main "HOL-Library.Word"
begin

section \<open>Colour parsing (config-loader.mjs, avatar-generator.mjs)\<close>

text \<open>
  Strings are lists of 8-bit characters; the colour names and hex strings of the palette
  are ASCII. An RGB triple is the object \<open>{r, g, b}\<close> that \<open>hexToRgb\<close> returns; its
  fields are JavaScript numbers holding non-negative integers, modelled as \<open>nat\<close>.
\<close>

record rgb =
  r :: nat
  g :: nat
  b :: nat

text \<open>
  The character class \<open>[a-f\d]\<close> of the regular expression, read under the \<open>i\<close> flag:
  the digits, the lower-case letters a to f and the upper-case letters A to F.
\<close>

definition hexClass :: "char \<Rightarrow> bool" where
  "hexClass c =
     (let n = (of_char c :: nat)
      in (48 \<le> n \<and> n \<le> 57) \<or> (97 \<le> n \<and> n \<le> 102) \<or> (65 \<le> n \<and> n \<le> 70))"

text \<open>
  The three capture groups \<open>([a-f\d]{2})([a-f\d]{2})([a-f\d]{2})$\<close>: exactly six characters
  of the class up to the end of the input.
\<close>

definition matchGroups :: "string \<Rightarrow> (string \<times> string \<times> string) option" where
  "matchGroups s =
     (case s of
        [c1, c2, c3, c4, c5, c6] \<Rightarrow>
          if hexClass c1 \<and> hexClass c2 \<and> hexClass c3 \<and> hexClass c4 \<and> hexClass c5 \<and> hexClass c6
          then Some ([c1, c2], [c3, c4], [c5, c6]) else None
      | _ \<Rightarrow> None)"

text \<open>
  \<open>/^#?([a-f\d]{2})([a-f\d]{2})([a-f\d]{2})$/i.exec(hex)\<close>: the optional \<open>#\<close> is greedy,
  and the matcher falls back to not consuming it when the rest does not match.
\<close>

definition hexRegexExec :: "string \<Rightarrow> (string \<times> string \<times> string) option" where
  "hexRegexExec s =
     (case s of
        c # t \<Rightarrow>
          if c = CHR ''#''
          then (case matchGroups t of Some gs \<Rightarrow> Some gs | None \<Rightarrow> matchGroups s)
          else matchGroups s
      | [] \<Rightarrow> matchGroups s)"

text \<open>The value of one digit in radix 16, as \<open>parseInt\<close> reads it.\<close>

definition digitValue :: "char \<Rightarrow> nat" where
  "digitValue c =
     (let n = (of_char c :: nat)
      in if 48 \<le> n \<and> n \<le> 57 then n - 48
         else if 97 \<le> n \<and> n \<le> 102 then n - 87
         else n - 55)"

text \<open>
  \<open>parseInt(s, 16)\<close> on a capture group: the group holds hex digits only (no sign, no blank,
  no \<open>0x\<close> prefix), so the result is the positional value of its digits.
\<close>

definition parseInt16 :: "string \<Rightarrow> nat" where
  "parseInt16 s = foldl (\<lambda>acc c. 16 * acc + digitValue c) 0 s"

definition hexToRgb :: "string \<Rightarrow> rgb option" where
  "hexToRgb hex =
     (case hexRegexExec hex of
        Some (g1, g2, g3) \<Rightarrow> Some \<lparr>r = parseInt16 g1, g = parseInt16 g2, b = parseInt16 g3\<rparr>
      | None \<Rightarrow> None)"

text \<open>
  The shape the documentation of \<open>hexToRgb\<close> describes, stated on its own: six hexadecimal
  digits in either case, with at most one leading \<open>#\<close>.
\<close>

definition sixHexDigits :: "string \<Rightarrow> bool" where
  "sixHexDigits s = (length s = 6 \<and> list_all (\<lambda>c. c \<in> set ''0123456789abcdefABCDEF'') s)"

definition isHexColor :: "string \<Rightarrow> bool" where
  "isHexColor s = (sixHexDigits s \<or> (s \<noteq> [] \<and> hd s = CHR ''#'' \<and> sixHexDigits (tl s)))"

section \<open>Shadow colour and shadow offset (avatar generator)\<close>

text \<open>
  \<open>String.prototype.toLowerCase\<close> on the ASCII names of the palette: the letters A to Z move
  to a to z, every other character stays.
\<close>

definition toLowerCaseChar :: "char \<Rightarrow> char" where
  "toLowerCaseChar c =
     (let n = (of_char c :: nat) in if 65 \<le> n \<and> n \<le> 90 then char_of (n + 32) else c)"

definition toLowerCase :: "string \<Rightarrow> string" where
  "toLowerCase s = map toLowerCaseChar s"

text \<open>
  \<open>obj[key]\<close> on a plain object (an object literal, or what \<open>JSON.parse\<close> returns): the own
  property of that name if there is one, else the member of \<open>Object.prototype\<close> of that
  name, else \<open>undefined\<close>. The own properties are a partial map.
\<close>

datatype 'a js_value = Own 'a | Proto string | Undefined

definition objectPrototypeNames :: "string list" where
  "objectPrototypeNames =
     [''constructor'', ''__proto__'', ''hasOwnProperty'', ''isPrototypeOf'',
      ''propertyIsEnumerable'', ''toLocaleString'', ''toString'', ''valueOf'',
      ''__defineGetter__'', ''__defineSetter__'', ''__lookupGetter__'', ''__lookupSetter__'']"

definition getProp :: "(string \<rightharpoonup> 'a) \<Rightarrow> string \<Rightarrow> 'a js_value" where
  "getProp obj key =
     (case obj key of
        Some v \<Rightarrow> Own v
      | None \<Rightarrow> if key \<in> set objectPrototypeNames then Proto key else Undefined)"

text \<open>
  The \<open>length\<close> property of a member of \<open>Object.prototype\<close>: the number of parameters of a
  function; \<open>__proto__\<close> is the prototype object itself, which has none.
\<close>

definition protoLength :: "string \<Rightarrow> nat option" where
  "protoLength name =
     (if name = ''__proto__'' then None
      else if name \<in> set [''toLocaleString'', ''toString'', ''valueOf''] then Some 0
      else if name \<in> set [''__defineGetter__'', ''__defineSetter__''] then Some 2
      else Some 1)"

text \<open>
  Whether a looked-up value counts as true in a condition: a string unless it is empty, every
  member of \<open>Object.prototype\<close>, and not \<open>undefined\<close>.
\<close>

definition truthy :: "string js_value \<Rightarrow> bool" where
  "truthy v = (case v of Own s' \<Rightarrow> s' \<noteq> [] | Proto name \<Rightarrow> True | Undefined \<Rightarrow> False)"

text \<open>
  \<open>getShadowColor\<close>: the table \<open>AVATAR_CONFIG.shadowColorMap\<close> is a JSON object from colour
  names to arrays of colour names. A missing entry (\<open>!options\<close>) and an empty array both take
  the fallback branch, which returns the name \<open>navy\<close>. A member of \<open>Object.prototype\<close> is
  not missing; element 0 of it is \<open>undefined\<close>, the result \<open>None\<close> here.
\<close>

definition getShadowColor :: "(string \<rightharpoonup> string list) \<Rightarrow> string \<Rightarrow> string option" where
  "getShadowColor colorMap backgroundColor =
     (let colorKey = toLowerCase backgroundColor
      in case getProp colorMap colorKey of
           Undefined \<Rightarrow> Some ''navy''
         | Own options \<Rightarrow> if length options = 0 then Some ''navy'' else Some (options ! 0)
         | Proto name \<Rightarrow> if protoLength name = Some 0 then Some ''navy'' else None)"

text \<open>
  The offset bands of \<open>AVATAR_CONFIG.shadowOffset\<close>. The configuration file is not part of
  the sources, so the bands are parameters. Sizes and minimum offsets are pixel counts
  (\<open>int\<close>); a multiplier is the exact value of the double the JSON literal denotes (\<open>rat\<close>).
  The large band has no maximum size: the code never reads one.
\<close>

record offset_rule =
  offsetMultiplier :: rat
  minOffset :: int

record band = offset_rule +
  maxSize :: int

record shadow_offset_config =
  small :: band
  medium :: band
  large :: offset_rule

text \<open>
  JavaScript numbers are doubles: the product \<open>size * multiplier\<close> is the exact product
  rounded to a double. The rounding is the parameter \<open>fl\<close> of the functions below; the
  properties that depend on it say what they assume of it (round-to-nearest is monotone and
  leaves the integers below \<open>2^53\<close> unchanged). Division by 2 and the integer additions and
  subtractions of the placement are exact.
\<close>

type_synonym rounding = "rat \<Rightarrow> rat"

text \<open>
  \<open>calculateShadowOffset\<close> returns the object \<open>{x: -offset, y: -offset}\<close>, the pair
  \<open>(x, y)\<close> here.
\<close>

definition calculateShadowOffset :: "rounding \<Rightarrow> shadow_offset_config \<Rightarrow> int \<Rightarrow> int \<times> int" where
  "calculateShadowOffset fl shadowConfig size' =
     (let offset =
        (if size' \<le> maxSize (small shadowConfig) then
           max (minOffset (small shadowConfig))
               \<lfloor>fl (of_int size' * offsetMultiplier (small shadowConfig))\<rfloor>
         else if size' \<le> maxSize (medium shadowConfig) then
           max (minOffset (medium shadowConfig))
               \<lfloor>fl (of_int size' * offsetMultiplier (medium shadowConfig))\<rfloor>
         else
           max (minOffset (large shadowConfig))
               \<lfloor>fl (of_int size' * offsetMultiplier (large shadowConfig))\<rfloor>)
      in (- offset, - offset))"

text \<open>
  The band table as the design describes it: an ordered table of bands with an inclusive
  maximum size, scanned once in ascending order, and the large band as the fallback.
\<close>

datatype band_name = Small | Medium | Large

definition matchingBand :: "shadow_offset_config \<Rightarrow> int \<Rightarrow> band_name" where
  "matchingBand shadowConfig c =
     (case find (\<lambda>(name, m). c \<le> m)
             [(Small, maxSize (small shadowConfig)), (Medium, maxSize (medium shadowConfig))] of
        Some (name, m) \<Rightarrow> name
      | None \<Rightarrow> Large)"

definition bandMultiplier :: "shadow_offset_config \<Rightarrow> band_name \<Rightarrow> rat" where
  "bandMultiplier shadowConfig name =
     (case name of
        Small \<Rightarrow> offsetMultiplier (small shadowConfig)
      | Medium \<Rightarrow> offsetMultiplier (medium shadowConfig)
      | Large \<Rightarrow> offsetMultiplier (large shadowConfig))"

definition bandMinOffset :: "shadow_offset_config \<Rightarrow> band_name \<Rightarrow> int" where
  "bandMinOffset shadowConfig name =
     (case name of
        Small \<Rightarrow> minOffset (small shadowConfig)
      | Medium \<Rightarrow> minOffset (medium shadowConfig)
      | Large \<Rightarrow> minOffset (large shadowConfig))"

text \<open>The inclusive maximum of a band; the large band has none.\<close>

definition bandMaxSize :: "shadow_offset_config \<Rightarrow> band_name \<Rightarrow> int option" where
  "bandMaxSize shadowConfig name =
     (case name of
        Small \<Rightarrow> Some (maxSize (small shadowConfig))
      | Medium \<Rightarrow> Some (maxSize (medium shadowConfig))
      | Large \<Rightarrow> None)"

text \<open>
  The effective offset with rounding to the nearest integer (\<open>round\<close>, as the offset rule is
  worded), and with rounding down (\<open>Math.floor\<close>).
\<close>

definition roundedOffset :: "rounding \<Rightarrow> shadow_offset_config \<Rightarrow> int \<Rightarrow> int" where
  "roundedOffset fl shadowConfig c =
     (let name = matchingBand shadowConfig c
      in max (bandMinOffset shadowConfig name) (round (fl (of_int c * bandMultiplier shadowConfig name))))"

definition flooredOffset :: "rounding \<Rightarrow> shadow_offset_config \<Rightarrow> int \<Rightarrow> int" where
  "flooredOffset fl shadowConfig c =
     (let name = matchingBand shadowConfig c
      in max (bandMinOffset shadowConfig name) \<lfloor>fl (of_int c * bandMultiplier shadowConfig name)\<rfloor>)"

text \<open>A configuration with dyadic multipliers, on which every product below is exact.\<close>

definition sampleOffsets :: shadow_offset_config where
  "sampleOffsets =
     \<lparr>small = \<lparr>offsetMultiplier = 1 / 16, minOffset = 8, maxSize = 256\<rparr>,
      medium = \<lparr>offsetMultiplier = 3 / 64, minOffset = 12, maxSize = 512\<rparr>,
      large = \<lparr>offsetMultiplier = 1 / 32, minOffset = 16\<rparr>\<rparr>"

section \<open>Silhouette recolouring (generateAvatar, step 2)\<close>

text \<open>
  Raw pixel data is a \<open>Buffer\<close> of bytes, four per pixel (R, G, B, A), row-major. Reading a
  buffer past its end gives \<open>undefined\<close>, which a buffer stores as 0; writing past the end of
  a buffer does nothing (as \<open>xs[i := v]\<close> does); storing a number keeps its low eight bits.
\<close>

type_synonym buffer = "8 word list"

definition readByte :: "buffer \<Rightarrow> nat \<Rightarrow> 8 word" where
  "readByte d k = (if k < length d then d ! k else 0)"

text \<open>The body of the loop, for pixel \<open>i\<close>.\<close>

definition recolorPixel :: "rgb \<Rightarrow> buffer \<Rightarrow> buffer \<Rightarrow> nat \<Rightarrow> buffer" where
  "recolorPixel shadowRgb portraitData shadowBuffer i =
     (let alpha = readByte portraitData (i * 4 + 3)
      in shadowBuffer
           [i * 4 + 0 := of_nat (r shadowRgb),
            i * 4 + 1 := of_nat (g shadowRgb),
            i * 4 + 2 := of_nat (b shadowRgb),
            i * 4 + 3 := alpha])"

text \<open>\<open>for (let i = 0; i < shadowSize * shadowSize; i++)\<close>, from index \<open>i\<close> up to \<open>n\<close>.\<close>

function recolorFrom :: "rgb \<Rightarrow> buffer \<Rightarrow> nat \<Rightarrow> nat \<Rightarrow> buffer \<Rightarrow> buffer" where
  "recolorFrom shadowRgb portraitData i n shadowBuffer =
     (if i < n
      then recolorFrom shadowRgb portraitData (i + 1) n
             (recolorPixel shadowRgb portraitData shadowBuffer i)
      else shadowBuffer)"
  by pat_completeness auto
termination
  by (relation "measure (\<lambda>(shadowRgb, portraitData, i, n, shadowBuffer). n - i)") auto

declare recolorFrom.simps [simp del]

text \<open>
  \<open>Buffer.allocUnsafe(n)\<close>: \<open>n\<close> bytes of whatever the memory holds; the memory is the
  parameter \<open>heap\<close>.
\<close>

definition allocUnsafe :: "(nat \<Rightarrow> 8 word) \<Rightarrow> nat \<Rightarrow> buffer" where
  "allocUnsafe heap n = map heap [0..<n]"

definition recolorSilhouette :: "(nat \<Rightarrow> 8 word) \<Rightarrow> rgb \<Rightarrow> buffer \<Rightarrow> nat \<Rightarrow> buffer" where
  "recolorSilhouette heap shadowRgb portraitData shadowSize =
     recolorFrom shadowRgb portraitData 0 (shadowSize * shadowSize)
       (allocUnsafe heap (shadowSize * shadowSize * 4))"

section \<open>Shadow placement and cropping (generateAvatar, steps 4 to 6)\<close>

text \<open>Step 4: centred, then moved by the offset. \<open>Math.floor(n / 2)\<close> is \<open>n div 2\<close>.\<close>

definition shadowPosition :: "int \<Rightarrow> int \<Rightarrow> int \<times> int \<Rightarrow> int \<times> int" where
  "shadowPosition size' shadowSize offset =
     (let centerX = (size' - shadowSize) div 2;
          centerY = (size' - shadowSize) div 2;
          shadowX = centerX + fst offset;
          shadowY = centerY + snd offset
      in (shadowX, shadowY))"

record crop_area =
  cropLeft :: int
  cropTop :: int
  cropRight :: int
  cropBottom :: int
  cropWidth :: int
  cropHeight :: int

text \<open>Step 5: the part of the shadow that is visible on the canvas.\<close>

definition visibleCrop :: "int \<Rightarrow> int \<Rightarrow> int \<times> int \<Rightarrow> crop_area" where
  "visibleCrop size' shadowSize pos =
     (let shadowX = fst pos;
          shadowY = snd pos;
          cl = max 0 (- shadowX);
          ct = max 0 (- shadowY);
          cr = min shadowSize (size' - shadowX);
          cb = min shadowSize (size' - shadowY)
      in \<lparr>cropLeft = cl, cropTop = ct, cropRight = cr, cropBottom = cb,
          cropWidth = cr - cl, cropHeight = cb - ct\<rparr>)"

text \<open>
  The condition of the \<open>if\<close> that guards the call of \<open>extract\<close>, and the area passed to it
  (\<open>left\<close>, \<open>top\<close>, \<open>width\<close>, \<open>height\<close>). The code has no other test of the crop area.
\<close>

definition needsCrop :: "int \<Rightarrow> crop_area \<Rightarrow> bool" where
  "needsCrop shadowSize c =
     (cropLeft c > 0 \<or> cropTop c > 0 \<or> cropWidth c < shadowSize \<or> cropHeight c < shadowSize)"

definition extractCall :: "int \<Rightarrow> crop_area \<Rightarrow> (int \<times> int \<times> int \<times> int) option" where
  "extractCall shadowSize c =
     (if needsCrop shadowSize c
      then Some (cropLeft c, cropTop c, cropWidth c, cropHeight c)
      else None)"

text \<open>
  The image library's \<open>extract\<close> on an image of side \<open>shadowSize\<close>: it takes an area with
  offsets that are not negative and a positive width and height, inside the image; for any
  other area it throws.
\<close>

definition extractAccepts :: "int \<Rightarrow> int \<times> int \<times> int \<times> int \<Rightarrow> bool" where
  "extractAccepts shadowSize area =
     (case area of
        (left', top', width, height) \<Rightarrow>
          0 \<le> left' \<and> 0 \<le> top' \<and> 0 < width \<and> 0 < height
          \<and> left' + width \<le> shadowSize \<and> top' + height \<le> shadowSize)"

text \<open>
  The shadow layer that is composited onto the transparent canvas: the recoloured pixels
  (\<open>shadowSize\<close> squared), the area extracted from them if any, and the position
  \<open>(finalShadowX, finalShadowY)\<close> of the result on the canvas.
\<close>

record shadow_layer =
  shadowPixels :: buffer
  shadowSide :: int
  extractArea :: "(int \<times> int \<times> int \<times> int) option"
  finalShadowX :: int
  finalShadowY :: int

section \<open>generateAvatar\<close>

text \<open>
  The size argument is a JavaScript number: a finite value, \<open>NaN\<close> (what \<open>parseInt\<close> gives
  for a malformed \<open>--size\<close>) or an infinity.
\<close>

datatype jsnum = Num rat | NaN | PosInfinity | NegInfinity

text \<open>\<open>size <= 0 || !Number.isInteger(size)\<close>\<close>

definition lessEqZero :: "jsnum \<Rightarrow> bool" where
  "lessEqZero n = (case n of Num q \<Rightarrow> q \<le> 0 | NaN \<Rightarrow> False | PosInfinity \<Rightarrow> False | NegInfinity \<Rightarrow> True)"

definition isInteger :: "jsnum \<Rightarrow> bool" where
  "isInteger n = (case n of Num q \<Rightarrow> of_int \<lfloor>q\<rfloor> = q | _ \<Rightarrow> False)"

text \<open>
  The errors of \<open>generateAvatar\<close>: one per \<open>throw\<close> of the source, in its order, and the
  error of the image library's \<open>extract\<close>, which the \<open>catch\<close> of the shadow block throws
  again. The image library is taken to decode, resize and encode without failing.
\<close>

datatype gen_error =
    PortraitNotFound
  | InvalidColor
  | InvalidSize
  | InvalidColorHex
  | ShadowColorParse
  | InvalidShadowSize
  | ExtractFailed

record avatar_config =
  shadowColorMap :: "string \<rightharpoonup> string list"
  shadowOffset :: shadow_offset_config
  shadowSizeMultiplier :: rat

text \<open>
  What \<open>generateAvatar\<close> reads from outside: whether the portrait file exists, the brand
  colours (name to hex string), the raw RGBA pixels of the portrait resized to cover a
  square of a given side, and the memory that \<open>allocUnsafe\<close> hands out.
\<close>

record gen_env =
  portraitExists :: bool
  colors :: "string \<rightharpoonup> string"
  portraitRaw :: "nat \<Rightarrow> buffer"
  heapBytes :: "nat \<Rightarrow> 8 word"

text \<open>
  The result: the background canvas (side and colour), the shadow layer if there is one,
  and the position of the portrait layer.
\<close>

record avatar =
  canvasSide :: int
  canvasColor :: rgb
  shadowLayer :: "shadow_layer option"
  portraitAt :: "int \<times> int"

text \<open>
  \<open>hexToRgb\<close> on a looked-up value: \<open>exec\<close> converts its argument to a string, and neither
  \<open>undefined\<close> nor the text of a function nor \<open>[object Object]\<close> has the shape of a colour.
\<close>

definition hexToRgbValue :: "string js_value \<Rightarrow> rgb option" where
  "hexToRgbValue v = (case v of Own hex \<Rightarrow> hexToRgb hex | Proto name \<Rightarrow> None | Undefined \<Rightarrow> None)"

text \<open>
  Lines 173 to 175: the shadow colour. A shadow colour name that is \<open>undefined\<close> is the
  property key \<open>undefined\<close>.
\<close>

definition shadowRgbFor :: "avatar_config \<Rightarrow> gen_env \<Rightarrow> string \<Rightarrow> rgb option" where
  "shadowRgbFor config env colorName =
     (let shadowColorName = getShadowColor (shadowColorMap config) colorName;
          shadowColorHex =
            getProp (colors env) (case shadowColorName of Some name \<Rightarrow> name | None \<Rightarrow> ''undefined'')
      in hexToRgbValue shadowColorHex)"

text \<open>Lines 170 to 294: the shadow silhouette.\<close>

definition buildShadow ::
  "rounding \<Rightarrow> avatar_config \<Rightarrow> gen_env \<Rightarrow> string \<Rightarrow> int \<Rightarrow> gen_error + shadow_layer" where
  "buildShadow fl config env colorName size' =
     (case shadowRgbFor config env colorName of
        None \<Rightarrow> Inl ShadowColorParse
      | Some shadowRgb \<Rightarrow>
          (let offset = calculateShadowOffset fl (shadowOffset config) size';
               desiredShadowSize = \<lfloor>fl (of_int size' * shadowSizeMultiplier config)\<rfloor>;
               shadowSize = max 1 desiredShadowSize
           in if shadowSize \<le> 0 then Inl InvalidShadowSize
              else
                (let portraitData = portraitRaw env (nat shadowSize);
                     shadowBuffer = recolorSilhouette (heapBytes env) shadowRgb portraitData (nat shadowSize);
                     pos = shadowPosition size' shadowSize offset;
                     crop = visibleCrop size' shadowSize pos
                 in case extractCall shadowSize crop of
                      None \<Rightarrow>
                        Inr \<lparr>shadowPixels = shadowBuffer,
                             shadowSide = shadowSize,
                             extractArea = None,
                             finalShadowX = max 0 (fst pos),
                             finalShadowY = max 0 (snd pos)\<rparr>
                    | Some area \<Rightarrow>
                        if extractAccepts shadowSize area
                        then Inr \<lparr>shadowPixels = shadowBuffer,
                                  shadowSide = shadowSize,
                                  extractArea = Some area,
                                  finalShadowX = max 0 (fst pos),
                                  finalShadowY = max 0 (snd pos)\<rparr>
                        else Inl ExtractFailed)))"

text \<open>
  \<open>generateAvatar(portraitPath, colorName, size, outputPath, grayscale, withShadow)\<close>. The
  paths and the grey-scale flag only reach the image library and the file system.
\<close>

definition generateAvatar ::
  "rounding \<Rightarrow> avatar_config \<Rightarrow> gen_env \<Rightarrow> string \<Rightarrow> jsnum \<Rightarrow> bool \<Rightarrow> gen_error + avatar" where
  "generateAvatar fl config env colorName sizeArg withShadow =
     (if \<not> portraitExists env then Inl PortraitNotFound
      else
        (let colorHex = getProp (colors env) (toLowerCase colorName)
         in if \<not> truthy colorHex then Inl InvalidColor
            else if lessEqZero sizeArg \<or> \<not> isInteger sizeArg then Inl InvalidSize
            else
              (let size' = (case sizeArg of Num q \<Rightarrow> \<lfloor>q\<rfloor> | _ \<Rightarrow> 0);
                   targetSize = size'
               in case hexToRgbValue colorHex of
                    None \<Rightarrow> Inl InvalidColorHex
                  | Some rgb' \<Rightarrow>
                      (let portraitX = (size' - targetSize) div 2;
                           portraitY = (size' - targetSize) div 2
                       in if withShadow
                          then (case buildShadow fl config env colorName size' of
                                  Inl e \<Rightarrow> Inl e
                                | Inr sh \<Rightarrow>
                                    Inr \<lparr>canvasSide = size', canvasColor = rgb',
                                         shadowLayer = Some sh, portraitAt = (portraitX, portraitY)\<rparr>)
                          else Inr \<lparr>canvasSide = size', canvasColor = rgb',
                                    shadowLayer = None, portraitAt = (portraitX, portraitY)\<rparr>))))"

text \<open>An environment and a configuration to run the model on.\<close>

definition sampleEnv :: gen_env where
  "sampleEnv =
     \<lparr>portraitExists = True,
      colors = [''aqua'' \<mapsto> ''#00FFDC'', ''navy'' \<mapsto> ''#1E2A45'', ''fuchsia'' \<mapsto> ''#FF008F''],
      portraitRaw = (\<lambda>n. replicate (n * n * 4) 200),
      heapBytes = (\<lambda>k. 7)\<rparr>"

definition missingPortraitEnv :: gen_env where
  "missingPortraitEnv = sampleEnv\<lparr>portraitExists := False\<rparr>"

definition sampleConfig :: avatar_config where
  "sampleConfig =
     \<lparr>shadowColorMap = [''aqua'' \<mapsto> [''navy'', ''fuchsia''], ''navy'' \<mapsto> [''aqua'', ''fuchsia''],
                        ''fuchsia'' \<mapsto> [''navy'', ''aqua'']],
      shadowOffset = sampleOffsets,
      shadowSizeMultiplier = 5 / 4\<rparr>"

section \<open>Size check of the encoded image (linkedin-image-generator.mjs)\<close>

text \<open>
  The options of the two encoders: \<open>jpeg({quality, mozjpeg})\<close> and
  \<open>png({compressionLevel, effort})\<close>, the effort being optional. The image library's
  \<open>toBuffer\<close> for the composited image is the parameter \<open>toBuffer\<close>.
\<close>

datatype encode_options = Jpeg nat bool | Png nat "nat option"

datatype warning = ExceedsLimit | StillExceedsLimit

record encoded =
  outputBuffer :: buffer
  encodeCalls :: "encode_options list"
  warnings :: "warning list"

definition encodeOutput :: "(encode_options \<Rightarrow> buffer) \<Rightarrow> string \<Rightarrow> encoded" where
  "encodeOutput toBuffer outputFormat =
     (let firstOptions = (if outputFormat = ''jpeg'' then Jpeg 90 True else Png 9 None);
          firstBuffer = toBuffer firstOptions;
          fileSizeMB = (of_nat (length firstBuffer) :: rat) / (1024 * 1024)
      in if fileSizeMB > 3
         then
           (let secondOptions = (if outputFormat = ''jpeg'' then Jpeg 75 True else Png 9 (Some 10));
                secondBuffer = toBuffer secondOptions;
                newFileSizeMB = (of_nat (length secondBuffer) :: rat) / (1024 * 1024)
            in \<lparr>outputBuffer = secondBuffer,
                encodeCalls = [firstOptions, secondOptions],
                warnings = (if newFileSizeMB > 3 then [ExceedsLimit, StillExceedsLimit] else [ExceedsLimit])\<rparr>)
         else \<lparr>outputBuffer = firstBuffer, encodeCalls = [firstOptions], warnings = []\<rparr>)"

text \<open>
  When one setting is stricter than another: a lower JPEG quality; for PNG, a compression
  level at least as high with a higher effort, where an effort left out is the library's
  default of 7 (the range is 1 to 10).
\<close>

definition effortOf :: "nat option \<Rightarrow> nat" where
  "effortOf e = (case e of None \<Rightarrow> 7 | Some n \<Rightarrow> n)"

fun stricter :: "encode_options \<Rightarrow> encode_options \<Rightarrow> bool" where
  "stricter (Jpeg q2 m2) (Jpeg q1 m1) = (q2 < q1)"
| "stricter (Png l2 e2) (Png l1 e1) = (l1 \<le> l2 \<and> effortOf e1 < effortOf e2)"
| "stricter _ _ = False"

text \<open>The budget in bytes: 3 MB.\<close>

definition byteBudget :: nat where
  "byteBudget = 3 * 1024 * 1024"

section \<open>Reference formulations and sample data for the properties\<close>

text \<open>The byte the loop leaves at index \<open>k\<close> of the pixels it has visited.\<close>

definition recoloredByte :: "rgb \<Rightarrow> buffer \<Rightarrow> nat \<Rightarrow> 8 word" where
  "recoloredByte shadowRgb portraitData k =
     (if k mod 4 = 0 then of_nat (r shadowRgb)
      else if k mod 4 = 1 then of_nat (g shadowRgb)
      else if k mod 4 = 2 then of_nat (b shadowRgb)
      else readByte portraitData k)"

text \<open>
  Shadow colour selection as the interface describes it: the first candidate of the entry
  of the background, and the failure \<open>NoShadowColorAvailable\<close> when the entry is missing or
  empty.
\<close>

datatype selection_error = NoShadowColorAvailable

definition firstCandidateOrFail ::
  "(string \<rightharpoonup> string list) \<Rightarrow> string \<Rightarrow> selection_error + string" where
  "firstCandidateOrFail table background =
     (case table background of
        None \<Rightarrow> Inl NoShadowColorAvailable
      | Some [] \<Rightarrow> Inl NoShadowColorAvailable
      | Some (c # cs) \<Rightarrow> Inr c)"

text \<open>Two defective tables: no entry at all, and an empty entry for \<open>aqua\<close>.\<close>

definition noEntries :: "string \<rightharpoonup> string list" where
  "noEntries = Map.empty"

definition emptyAquaEntry :: "string \<rightharpoonup> string list" where
  "emptyAquaEntry = [''aqua'' \<mapsto> []]"

text \<open>An encoder to run the size check on: the lower the quality, the shorter the output.\<close>

definition sampleToBuffer :: "encode_options \<Rightarrow> buffer" where
  "sampleToBuffer opts =
     (case opts of
        Jpeg q m \<Rightarrow> replicate (q * 40000) 0
      | Png l e \<Rightarrow> replicate (4000000 - effortOf e * 10000) 0)"

text \<open>
  Names for what \<open>generateAvatar\<close> computes on the way to the shadow layer: the shadow size
  of lines 186 and 187, and the crop area of lines 230 to 242.
\<close>

definition shadowSizeOf :: "rounding \<Rightarrow> avatar_config \<Rightarrow> int \<Rightarrow> int" where
  "shadowSizeOf fl config c = max 1 \<lfloor>fl (of_int c * shadowSizeMultiplier config)\<rfloor>"

definition plannedCrop :: "rounding \<Rightarrow> avatar_config \<Rightarrow> int \<Rightarrow> crop_area" where
  "plannedCrop fl config c =
     visibleCrop c (shadowSizeOf fl config c)
       (shadowPosition c (shadowSizeOf fl config c)
          (calculateShadowOffset fl (shadowOffset config) c))"

text \<open>The planned placement on one axis: centred, then moved up and left by the offset.\<close>

definition placedAt :: "int \<Rightarrow> int \<Rightarrow> int \<Rightarrow> int" where
  "placedAt c s off = (c - s) div 2 - off"

text \<open>The shadow layer that is built when nothing fails.\<close>

definition plannedLayer ::
  "rounding \<Rightarrow> avatar_config \<Rightarrow> gen_env \<Rightarrow> rgb \<Rightarrow> int \<Rightarrow> shadow_layer" where
  "plannedLayer fl config env shadowRgb c =
     \<lparr>shadowPixels =
        recolorSilhouette (heapBytes env) shadowRgb
          (portraitRaw env (nat (shadowSizeOf fl config c))) (nat (shadowSizeOf fl config c)),
      shadowSide = shadowSizeOf fl config c,
      extractArea = extractCall (shadowSizeOf fl config c) (plannedCrop fl config c),
      finalShadowX =
        max 0 (placedAt c (shadowSizeOf fl config c) (flooredOffset fl (shadowOffset config) c)),
      finalShadowY =
        max 0 (placedAt c (shadowSizeOf fl config c) (flooredOffset fl (shadowOffset config) c))\<rparr>"

section \<open>Properties of colour parsing\<close>

lemma hexClass_codes:
  "[48..<58] @ [97..<103] @ [65..<71] =
     [48, 49, 50, 51, 52, 53, 54, 55, 56, 57, 97, 98, 99, 100, 101, 102, 65, 66, 67, 68, 69, 70 :: nat]"
  by code_simp

lemma hexClass_chars:
  "map of_char ''0123456789abcdefABCDEF'' =
     [48, 49, 50, 51, 52, 53, 54, 55, 56, 57, 97, 98, 99, 100, 101, 102, 65, 66, 67, 68, 69, 70 :: nat]"
  by simp

lemma hexClass_listed:
  assumes h: "hexClass c"
  shows "c \<in> set ''0123456789abcdefABCDEF''"
proof -
  define n where "n = (of_char c :: nat)"
  from h have "(48 \<le> n \<and> n < 58) \<or> (97 \<le> n \<and> n < 103) \<or> (65 \<le> n \<and> n < 71)"
    unfolding hexClass_def Let_def n_def [symmetric] by arith
  then have "n \<in> set ([48..<58] @ [97..<103] @ [65..<71])"
    by (simp only: set_append set_upt Un_iff atLeastLessThan_iff)
  then have "(of_char c :: nat) \<in> of_char ` set ''0123456789abcdefABCDEF''"
    unfolding hexClass_codes hexClass_chars [symmetric] set_map n_def .
  then show ?thesis
    by (simp only: inj_image_mem_iff [OF inj_of_char])
qed

lemma listed_hexClass: "c \<in> set ''0123456789abcdefABCDEF'' \<Longrightarrow> hexClass c"
  by (auto simp: hexClass_def)

lemma hexClass_iff: "hexClass c \<longleftrightarrow> c \<in> set ''0123456789abcdefABCDEF''"
  using hexClass_listed listed_hexClass by blast

lemma digitValue_less: "hexClass c \<Longrightarrow> digitValue c < 16"
  by (auto simp: hexClass_def digitValue_def Let_def)

lemma parseInt16_pair: "hexClass c \<Longrightarrow> hexClass d \<Longrightarrow> parseInt16 [c, d] \<le> 255"
  using digitValue_less [of c] digitValue_less [of d] by (simp add: parseInt16_def)

lemma matchGroups_Some:
  "matchGroups s = Some gs \<longleftrightarrow>
     (\<exists>c1 c2 c3 c4 c5 c6. s = [c1, c2, c3, c4, c5, c6] \<and> gs = ([c1, c2], [c3, c4], [c5, c6])
        \<and> hexClass c1 \<and> hexClass c2 \<and> hexClass c3 \<and> hexClass c4 \<and> hexClass c5 \<and> hexClass c6)"
  unfolding matchGroups_def
  by (simp split: list.split) blast

lemma sixHexDigits_iff:
  "sixHexDigits s \<longleftrightarrow>
     (\<exists>c1 c2 c3 c4 c5 c6. s = [c1, c2, c3, c4, c5, c6]
        \<and> hexClass c1 \<and> hexClass c2 \<and> hexClass c3 \<and> hexClass c4 \<and> hexClass c5 \<and> hexClass c6)"
proof
  assume "sixHexDigits s"
  then have l: "length s = 6" and a: "list_all hexClass s"
    by (simp_all add: sixHexDigits_def hexClass_iff [abs_def])
  from l obtain c1 c2 c3 c4 c5 c6 where "s = [c1, c2, c3, c4, c5, c6]"
    by (auto simp: length_Suc_conv eval_nat_numeral)
  with a show "\<exists>c1 c2 c3 c4 c5 c6. s = [c1, c2, c3, c4, c5, c6]
        \<and> hexClass c1 \<and> hexClass c2 \<and> hexClass c3 \<and> hexClass c4 \<and> hexClass c5 \<and> hexClass c6"
    by simp
next
  assume "\<exists>c1 c2 c3 c4 c5 c6. s = [c1, c2, c3, c4, c5, c6]
        \<and> hexClass c1 \<and> hexClass c2 \<and> hexClass c3 \<and> hexClass c4 \<and> hexClass c5 \<and> hexClass c6"
  then obtain c1 c2 c3 c4 c5 c6 where s: "s = [c1, c2, c3, c4, c5, c6]"
    and h: "hexClass c1" "hexClass c2" "hexClass c3" "hexClass c4" "hexClass c5" "hexClass c6"
    by blast
  have "list_all hexClass s"
    using h by (simp add: s)
  then show "sixHexDigits s"
    by (simp add: sixHexDigits_def hexClass_iff [abs_def] s)
qed

lemma matchGroups_iff: "matchGroups s \<noteq> None \<longleftrightarrow> sixHexDigits s"
proof -
  have "matchGroups s \<noteq> None \<longleftrightarrow> (\<exists>gs. matchGroups s = Some gs)"
    by simp
  also have "\<dots> \<longleftrightarrow> sixHexDigits s"
    unfolding matchGroups_Some sixHexDigits_iff by blast
  finally show ?thesis .
qed

lemma matchGroups_bounds:
  assumes "matchGroups s = Some (g1, g2, g3)"
  shows "parseInt16 g1 \<le> 255 \<and> parseInt16 g2 \<le> 255 \<and> parseInt16 g3 \<le> 255"
proof -
  from assms obtain c1 c2 c3 c4 c5 c6 where "g1 = [c1, c2]" "g2 = [c3, c4]" "g3 = [c5, c6]"
    and "hexClass c1" "hexClass c2" "hexClass c3" "hexClass c4" "hexClass c5" "hexClass c6"
    unfolding matchGroups_Some by blast
  then show ?thesis
    by (simp only: parseInt16_pair)
qed

lemma hexRegexExec_iff: "hexRegexExec s \<noteq> None \<longleftrightarrow> isHexColor s"
proof (cases s)
  case Nil
  then show ?thesis
    using matchGroups_iff [of s] by (simp add: hexRegexExec_def isHexColor_def)
next
  case (Cons c t)
  show ?thesis
  proof (cases "c = CHR ''#''")
    case True
    with Cons matchGroups_iff [of t] matchGroups_iff [of s] show ?thesis
      by (auto simp: hexRegexExec_def isHexColor_def split: option.splits)
  next
    case False
    with Cons matchGroups_iff [of s] show ?thesis
      by (auto simp: hexRegexExec_def isHexColor_def)
  qed
qed

lemma hexRegexExec_bounds:
  assumes "hexRegexExec s = Some (g1, g2, g3)"
  shows "parseInt16 g1 \<le> 255 \<and> parseInt16 g2 \<le> 255 \<and> parseInt16 g3 \<le> 255"
proof -
  from assms have "matchGroups s = Some (g1, g2, g3) \<or> matchGroups (tl s) = Some (g1, g2, g3)"
    by (cases s) (auto simp: hexRegexExec_def split: if_splits option.splits)
  then show ?thesis
    using matchGroups_bounds by blast
qed

text \<open>
  C9: \<open>hexToRgb\<close> returns an object exactly for the strings made of six hexadecimal digits
  (either case) with an optional single leading \<open>#\<close>; the three fields of the object are
  integers between 0 and 255; every other string gives null.
\<close>

theorem hexToRgb_shape:
  "(case hexToRgb s of
      Some c \<Rightarrow> isHexColor s \<and> r c \<le> 255 \<and> g c \<le> 255 \<and> b c \<le> 255
    | None \<Rightarrow> \<not> isHexColor s)"
proof (cases "hexRegexExec s")
  case None
  with hexRegexExec_iff [of s] show ?thesis
    by (simp add: hexToRgb_def)
next
  case (Some gs)
  obtain g1 g2 g3 where gs: "gs = (g1, g2, g3)"
    by (cases gs) auto
  from Some hexRegexExec_iff [of s] have "isHexColor s"
    by simp
  with Some gs hexRegexExec_bounds [of s g1 g2 g3] show ?thesis
    by (simp add: hexToRgb_def)
qed

theorem hexToRgb_shape_witness:
  "hexToRgb ''#00FFDC'' = Some \<lparr>r = 0, g = 255, b = 220\<rparr> \<and> isHexColor ''#00FFDC''
   \<and> hexToRgb ''00ffdc0'' = None \<and> \<not> isHexColor ''00ffdc0''"
proof -
  have a: "hexToRgb ''#00FFDC'' = Some \<lparr>r = 0, g = 255, b = 220\<rparr>"
    by (simp add: hexToRgb_def hexRegexExec_def matchGroups_def hexClass_def parseInt16_def
        digitValue_def)
  have c: "hexToRgb ''00ffdc0'' = None"
    by (simp add: hexToRgb_def hexRegexExec_def matchGroups_def)
  from a c hexToRgb_shape [of "''#00FFDC''"] hexToRgb_shape [of "''00ffdc0''"] show ?thesis
    by simp
qed

section \<open>Properties of the recolouring loop\<close>

lemma recolorPixel_length [simp]: "length (recolorPixel c pd buf i) = length buf"
  by (simp add: recolorPixel_def Let_def)

lemma mod4_Suc:
  "(i * 4) mod 4 = (0::nat)" "Suc (i * 4) mod 4 = 1" "Suc (Suc (i * 4)) mod 4 = 2"
  "Suc (Suc (Suc (i * 4))) mod 4 = 3"
  by presburger+

lemma recolorPixel_nth:
  assumes "k < length buf"
  shows "recolorPixel c pd buf i ! k = (if k div 4 = i then recoloredByte c pd k else buf ! k)"
proof (cases "k div 4 = i")
  case True
  then have "k = i * 4 + k mod 4" by (metis div_mult_mod_eq)
  moreover have "k mod 4 = 0 \<or> k mod 4 = 1 \<or> k mod 4 = 2 \<or> k mod 4 = 3" by arith
  ultimately have "k = i * 4 + 0 \<or> k = i * 4 + 1 \<or> k = i * 4 + 2 \<or> k = i * 4 + 3" by metis
  then show ?thesis
    using assms True
    by (elim disjE)
      (simp_all add: recolorPixel_def Let_def recoloredByte_def nth_list_update mod4_Suc)
next
  case False
  then have "k \<noteq> i * 4 + 0" "k \<noteq> i * 4 + 1" "k \<noteq> i * 4 + 2" "k \<noteq> i * 4 + 3" by auto
  then show ?thesis
    using False by (simp add: recolorPixel_def Let_def)
qed

lemma recolorFrom_length [simp]: "length (recolorFrom c pd i n buf) = length buf"
proof (induction c pd i n buf rule: recolorFrom.induct)
  case (1 c pd i n buf)
  show ?case
  proof (cases "i < n")
    case True
    with "1.IH" show ?thesis by (subst recolorFrom.simps) simp
  next
    case False
    then show ?thesis by (subst recolorFrom.simps) simp
  qed
qed

lemma recolorFrom_nth:
  "k < length buf \<Longrightarrow>
     recolorFrom c pd i n buf ! k =
       (if i \<le> k div 4 \<and> k div 4 < n then recoloredByte c pd k else buf ! k)"
proof (induction c pd i n buf rule: recolorFrom.induct)
  case (1 c pd i n buf)
  show ?case
  proof (cases "i < n")
    case True
    have "recolorFrom c pd i n buf ! k = recolorFrom c pd (i + 1) n (recolorPixel c pd buf i) ! k"
      using True by (subst recolorFrom.simps) simp
    also have "\<dots> = (if i + 1 \<le> k div 4 \<and> k div 4 < n then recoloredByte c pd k
                      else recolorPixel c pd buf i ! k)"
      using "1.IH" [OF True] "1.prems" by simp
    also have "\<dots> = (if i \<le> k div 4 \<and> k div 4 < n then recoloredByte c pd k else buf ! k)"
      using True "1.prems" by (auto simp: recolorPixel_nth)
    finally show ?thesis .
  next
    case False
    then show ?thesis by (subst recolorFrom.simps) auto
  qed
qed

lemma allocUnsafe_length [simp]: "length (allocUnsafe heap n) = n"
  by (simp add: allocUnsafe_def)

lemma recolorSilhouette_length: "length (recolorSilhouette heap c pd s) = s * s * 4"
  by (simp add: recolorSilhouette_def)

lemma recolorSilhouette_nth:
  assumes "k < s * s * 4"
  shows "recolorSilhouette heap c pd s ! k = recoloredByte c pd k"
proof -
  from assms have "k div 4 < s * s" by arith
  with assms show ?thesis
    by (simp add: recolorSilhouette_def recolorFrom_nth)
qed

lemma recoloredByte_channels:
  "recoloredByte c pd (i * 4 + 0) = of_nat (r c)"
  "recoloredByte c pd (i * 4 + 1) = of_nat (g c)"
  "recoloredByte c pd (i * 4 + 2) = of_nat (b c)"
  "recoloredByte c pd (i * 4 + 3) = readByte pd (i * 4 + 3)"
  by (simp_all add: recoloredByte_def mod4_Suc)

lemma unat_channel: "v \<le> 255 \<Longrightarrow> unat (of_nat v :: 8 word) = v"
  by (simp add: unat_of_nat)

text \<open>
  C1: for a portrait raster of \<open>shadowSize\<close> squared pixels and a shadow colour with
  channels in 0..255, the recolouring loop gives a buffer of the same length in which every
  pixel has the alpha byte of the portrait and the R, G and B bytes of the shadow colour.
\<close>

theorem recolor_preserves_alpha:
  assumes "length portraitData = shadowSize * shadowSize * 4"
    and "r shadowRgb \<le> 255" and "g shadowRgb \<le> 255" and "b shadowRgb \<le> 255"
    and "out = recolorSilhouette heap shadowRgb portraitData shadowSize"
  shows "length out = length portraitData \<and>
         (\<forall>i < shadowSize * shadowSize.
            out ! (i * 4 + 3) = portraitData ! (i * 4 + 3) \<and>
            unat (out ! (i * 4 + 0)) = r shadowRgb \<and>
            unat (out ! (i * 4 + 1)) = g shadowRgb \<and>
            unat (out ! (i * 4 + 2)) = b shadowRgb)"
proof (intro conjI allI impI)
  show "length out = length portraitData"
    using assms by (simp add: recolorSilhouette_length)
next
  fix i assume i: "i < shadowSize * shadowSize"
  then have k: "i * 4 + 3 < shadowSize * shadowSize * 4" "i * 4 + 0 < shadowSize * shadowSize * 4"
    "i * 4 + 1 < shadowSize * shadowSize * 4" "i * 4 + 2 < shadowSize * shadowSize * 4"
    by simp_all
  have "out ! (i * 4 + 3) = readByte portraitData (i * 4 + 3)"
    unfolding assms(5) recolorSilhouette_nth [OF k(1)] recoloredByte_channels ..
  also have "\<dots> = portraitData ! (i * 4 + 3)"
    using k(1) assms(1) by (simp add: readByte_def)
  finally show "out ! (i * 4 + 3) = portraitData ! (i * 4 + 3)" .
  have "out ! (i * 4 + 0) = of_nat (r shadowRgb)"
    unfolding assms(5) recolorSilhouette_nth [OF k(2)] recoloredByte_channels ..
  then show "unat (out ! (i * 4 + 0)) = r shadowRgb"
    using assms(2) by (simp only: unat_channel)
  have "out ! (i * 4 + 1) = of_nat (g shadowRgb)"
    unfolding assms(5) recolorSilhouette_nth [OF k(3)] recoloredByte_channels ..
  then show "unat (out ! (i * 4 + 1)) = g shadowRgb"
    using assms(3) by (simp only: unat_channel)
  have "out ! (i * 4 + 2) = of_nat (b shadowRgb)"
    unfolding assms(5) recolorSilhouette_nth [OF k(4)] recoloredByte_channels ..
  then show "unat (out ! (i * 4 + 2)) = b shadowRgb"
    using assms(4) by (simp only: unat_channel)
qed

theorem recolor_preserves_alpha_witness:
  "length [1, 2, 3, 4 :: 8 word] = 1 * 1 * 4 \<and>
   recolorSilhouette (\<lambda>k. 7) \<lparr>r = 30, g = 42, b = 69\<rparr> [1, 2, 3, 4] 1 ! (0 * 4 + 3) = 4 \<and>
   unat (recolorSilhouette (\<lambda>k. 7) \<lparr>r = 30, g = 42, b = 69\<rparr> [1, 2, 3, 4] 1 ! (0 * 4 + 0)) = 30 \<and>
   unat (recolorSilhouette (\<lambda>k. 7) \<lparr>r = 30, g = 42, b = 69\<rparr> [1, 2, 3, 4] 1 ! (0 * 4 + 1)) = 42 \<and>
   unat (recolorSilhouette (\<lambda>k. 7) \<lparr>r = 30, g = 42, b = 69\<rparr> [1, 2, 3, 4] 1 ! (0 * 4 + 2)) = 69"
  using recolor_preserves_alpha [of "[1, 2, 3, 4]" 1 "\<lparr>r = 30, g = 42, b = 69\<rparr>" _ "\<lambda>k. 7", OF _ _ _ _ refl]
  by simp

section \<open>Properties of the offset bands\<close>

lemma matchingBand_ladder:
  "matchingBand cfg c =
     (if c \<le> maxSize (small cfg) then Small
      else if c \<le> maxSize (medium cfg) then Medium else Large)"
  by (simp add: matchingBand_def)

lemma calculateShadowOffset_floored:
  "calculateShadowOffset fl cfg c = (- flooredOffset fl cfg c, - flooredOffset fl cfg c)"
  by (simp add: calculateShadowOffset_def flooredOffset_def matchingBand_ladder
      bandMinOffset_def bandMultiplier_def Let_def)

lemma matchingBand_least:
  assumes "maxSize (small cfg) \<le> maxSize (medium cfg)"
    and "bandMaxSize cfg name = Some m" and "c \<le> m"
  shows "\<exists>m'. bandMaxSize cfg (matchingBand cfg c) = Some m' \<and> c \<le> m' \<and> m' \<le> m"
  using assms by (cases name) (auto simp: bandMaxSize_def matchingBand_ladder)

lemma sampleOffsets_204:
  "calculateShadowOffset id sampleOffsets 204 = (- 12, - 12)"
  "roundedOffset id sampleOffsets 204 = 13"
  "flooredOffset id sampleOffsets 204 = 12"
  "matchingBand sampleOffsets 204 = Small"
  by code_simp+

text \<open>
  C2 as stated, with rounding to the nearest integer, fails: at canvas size 204 in the small
  band of the sample configuration the product is 12.75, the code's offset is 12 and the
  rounded one is 13.
\<close>

theorem offset_rounded_counterexample:
  "calculateShadowOffset id sampleOffsets 204 = (- 12, - 12)
   \<and> roundedOffset id sampleOffsets 204 = 13
   \<and> - fst (calculateShadowOffset id sampleOffsets 204) \<noteq> roundedOffset id sampleOffsets 204"
  by (simp add: sampleOffsets_204)

text \<open>
  C2, amended: for every canvas size the offset magnitude is
  \<open>max minOffset (floor (size * multiplier))\<close>, rounded down, for the band found by testing
  the small band, then the medium band, with inclusive maxima, and the large band
  otherwise; both coordinates of the returned offset are its negation. When the maxima
  ascend, the band found has the smallest maximum that is at least the canvas size.
\<close>

theorem offset_floored_in_band:
  "calculateShadowOffset fl cfg c = (- flooredOffset fl cfg c, - flooredOffset fl cfg c)
   \<and> flooredOffset fl cfg c =
       max (bandMinOffset cfg (matchingBand cfg c))
           \<lfloor>fl (of_int c * bandMultiplier cfg (matchingBand cfg c))\<rfloor>
   \<and> matchingBand cfg c =
       (if c \<le> maxSize (small cfg) then Small
        else if c \<le> maxSize (medium cfg) then Medium else Large)
   \<and> (maxSize (small cfg) \<le> maxSize (medium cfg) \<longrightarrow>
        (\<forall>name m. bandMaxSize cfg name = Some m \<and> c \<le> m \<longrightarrow>
           (\<exists>m'. bandMaxSize cfg (matchingBand cfg c) = Some m' \<and> c \<le> m' \<and> m' \<le> m)))"
proof (intro conjI impI allI)
  show "calculateShadowOffset fl cfg c = (- flooredOffset fl cfg c, - flooredOffset fl cfg c)"
    by (rule calculateShadowOffset_floored)
  show "flooredOffset fl cfg c =
      max (bandMinOffset cfg (matchingBand cfg c))
          \<lfloor>fl (of_int c * bandMultiplier cfg (matchingBand cfg c))\<rfloor>"
    by (simp add: flooredOffset_def Let_def)
  show "matchingBand cfg c =
      (if c \<le> maxSize (small cfg) then Small
       else if c \<le> maxSize (medium cfg) then Medium else Large)"
    by (rule matchingBand_ladder)
next
  fix name m
  assume "maxSize (small cfg) \<le> maxSize (medium cfg)" and "bandMaxSize cfg name = Some m \<and> c \<le> m"
  then show "\<exists>m'. bandMaxSize cfg (matchingBand cfg c) = Some m' \<and> c \<le> m' \<and> m' \<le> m"
    using matchingBand_least [of cfg name m c] by blast
qed

theorem offset_floored_in_band_witness:
  "calculateShadowOffset id sampleOffsets 204 = (- 12, - 12)
   \<and> flooredOffset id sampleOffsets 204 = 12
   \<and> matchingBand sampleOffsets 204 = Small
   \<and> maxSize (small sampleOffsets) \<le> maxSize (medium sampleOffsets)
   \<and> bandMaxSize sampleOffsets Medium = Some 512 \<and> (204::int) \<le> 512
   \<and> (\<exists>m'. bandMaxSize sampleOffsets (matchingBand sampleOffsets 204) = Some m' \<and> 204 \<le> m' \<and> m' \<le> 512)"
proof -
  have a: "maxSize (small sampleOffsets) \<le> maxSize (medium sampleOffsets)"
    by code_simp
  have b: "bandMaxSize sampleOffsets Medium = Some 512"
    by code_simp
  from offset_floored_in_band [of id sampleOffsets 204] a b
  have "\<exists>m'. bandMaxSize sampleOffsets (matchingBand sampleOffsets 204) = Some m' \<and> 204 \<le> m' \<and> m' \<le> 512"
    by auto
  with a b offset_floored_in_band [of id sampleOffsets 204] show ?thesis
    by (simp add: sampleOffsets_204)
qed

text \<open>
  C7: for two canvas sizes \<open>s1 \<le> s2\<close> that select the same band, the offset magnitude at
  \<open>s1\<close> is at most the one at \<open>s2\<close>, for a band whose multiplier is not negative and a
  monotone rounding of the product.
\<close>

theorem offset_monotone_in_band:
  assumes "mono fl"
    and "matchingBand cfg s1 = matchingBand cfg s2"
    and "0 \<le> bandMultiplier cfg (matchingBand cfg s1)"
    and "s1 \<le> s2"
  shows "- fst (calculateShadowOffset fl cfg s1) \<le> - fst (calculateShadowOffset fl cfg s2)"
proof -
  let ?m = "bandMultiplier cfg (matchingBand cfg s1)"
  from assms(3,4) have "of_int s1 * ?m \<le> of_int s2 * ?m"
    by (simp add: mult_right_mono)
  with assms(1) have "fl (of_int s1 * ?m) \<le> fl (of_int s2 * ?m)"
    by (rule monoD)
  then have "\<lfloor>fl (of_int s1 * ?m)\<rfloor> \<le> \<lfloor>fl (of_int s2 * ?m)\<rfloor>"
    by (rule floor_mono)
  then have "max (bandMinOffset cfg (matchingBand cfg s1)) \<lfloor>fl (of_int s1 * ?m)\<rfloor>
      \<le> max (bandMinOffset cfg (matchingBand cfg s1)) \<lfloor>fl (of_int s2 * ?m)\<rfloor>"
    by (rule max.mono [OF order_refl])
  moreover have "flooredOffset fl cfg s1
      = max (bandMinOffset cfg (matchingBand cfg s1)) \<lfloor>fl (of_int s1 * ?m)\<rfloor>"
    by (simp only: flooredOffset_def Let_def)
  moreover have "flooredOffset fl cfg s2
      = max (bandMinOffset cfg (matchingBand cfg s1)) \<lfloor>fl (of_int s2 * ?m)\<rfloor>"
    by (simp only: flooredOffset_def Let_def assms(2))
  ultimately have "flooredOffset fl cfg s1 \<le> flooredOffset fl cfg s2"
    by (simp only:)
  then show ?thesis
    by (simp add: calculateShadowOffset_floored)
qed

theorem offset_monotone_in_band_witness:
  "mono (id :: rat \<Rightarrow> rat)
   \<and> matchingBand sampleOffsets 100 = matchingBand sampleOffsets 204
   \<and> 0 \<le> bandMultiplier sampleOffsets (matchingBand sampleOffsets 100)
   \<and> (100::int) \<le> 204
   \<and> - fst (calculateShadowOffset id sampleOffsets 100) \<le> - fst (calculateShadowOffset id sampleOffsets 204)"
proof -
  have a: "mono (id :: rat \<Rightarrow> rat)"
    by (simp add: mono_def)
  have b: "matchingBand sampleOffsets 100 = matchingBand sampleOffsets 204"
    by code_simp
  have c: "0 \<le> bandMultiplier sampleOffsets (matchingBand sampleOffsets 100)"
    by code_simp
  have d: "(100::int) \<le> 204"
    by simp
  from a b c d offset_monotone_in_band [OF a b c d] show ?thesis
    by simp
qed

section \<open>Properties of the size check\<close>

lemma firstOptions_hd:
  "hd (encodeCalls (encodeOutput toBuffer fmt)) = (if fmt = ''jpeg'' then Jpeg 90 True else Png 9 None)"
  by (simp add: encodeOutput_def Let_def)

text \<open>
  C6: when the first encoding is over the budget of 3 MB, the image is encoded exactly once
  more, with JPEG quality 75 instead of 90, or with PNG compression level 9 and effort 10;
  the second buffer is the result whether it fits or not, and the warning that the limit is
  still exceeded is given exactly when it does not fit. The function is total: it raises
  nothing on an overrun.
\<close>

theorem encode_retries_once:
  assumes "byteBudget < length (toBuffer (hd (encodeCalls (encodeOutput toBuffer fmt))))"
  shows "\<exists>first second.
           encodeCalls (encodeOutput toBuffer fmt) = [first, second]
           \<and> (first, second) =
               (if fmt = ''jpeg'' then (Jpeg 90 True, Jpeg 75 True) else (Png 9 None, Png 9 (Some 10)))
           \<and> stricter second first
           \<and> outputBuffer (encodeOutput toBuffer fmt) = toBuffer second
           \<and> ExceedsLimit \<in> set (warnings (encodeOutput toBuffer fmt))
           \<and> (StillExceedsLimit \<in> set (warnings (encodeOutput toBuffer fmt))
                \<longleftrightarrow> byteBudget < length (toBuffer second))"
proof (cases "fmt = ''jpeg''")
  case True
  with assms have over: "byteBudget < length (toBuffer (Jpeg 90 True))"
    by (simp add: firstOptions_hd)
  show ?thesis
    using True over
    by (simp add: encodeOutput_def Let_def byteBudget_def)
next
  case False
  with assms have over: "byteBudget < length (toBuffer (Png 9 None))"
    by (simp add: firstOptions_hd)
  show ?thesis
    using False over
    by (simp add: encodeOutput_def Let_def byteBudget_def effortOf_def)
qed

lemma sampleToBuffer_lengths:
  "length (sampleToBuffer (Jpeg 90 True)) = 3600000"
  "length (sampleToBuffer (Jpeg 75 True)) = 3000000"
  by (simp_all add: sampleToBuffer_def)

theorem encode_retries_once_witness:
  "byteBudget < length (sampleToBuffer (hd (encodeCalls (encodeOutput sampleToBuffer ''jpeg''))))
   \<and> encodeCalls (encodeOutput sampleToBuffer ''jpeg'') = [Jpeg 90 True, Jpeg 75 True]
   \<and> outputBuffer (encodeOutput sampleToBuffer ''jpeg'') = sampleToBuffer (Jpeg 75 True)
   \<and> StillExceedsLimit \<notin> set (warnings (encodeOutput sampleToBuffer ''jpeg''))"
proof -
  have a: "byteBudget < length (sampleToBuffer (hd (encodeCalls (encodeOutput sampleToBuffer ''jpeg''))))"
    by (simp add: firstOptions_hd sampleToBuffer_lengths byteBudget_def)
  have b: "\<not> byteBudget < length (sampleToBuffer (Jpeg 75 True))"
    by (simp add: sampleToBuffer_lengths byteBudget_def)
  from a b encode_retries_once [of sampleToBuffer "''jpeg''", OF a] show ?thesis
    by auto
qed

section \<open>Properties of the crop\<close>

text \<open>
  C10: whenever the visible width and height are positive, the cropped layer placed at
  \<open>(max 0 shadowX, max 0 shadowY)\<close> lies inside the canvas, for every canvas size, shadow
  size and position.
\<close>

theorem cropped_layer_inside_canvas:
  assumes "0 < cropWidth (visibleCrop c s (shadowX, shadowY))"
    and "0 < cropHeight (visibleCrop c s (shadowX, shadowY))"
  shows "max 0 shadowX + cropWidth (visibleCrop c s (shadowX, shadowY)) \<le> c
         \<and> max 0 shadowY + cropHeight (visibleCrop c s (shadowX, shadowY)) \<le> c"
  by (simp add: visibleCrop_def Let_def) linarith

theorem cropped_layer_inside_canvas_witness:
  "0 < cropWidth (visibleCrop 512 640 (- 88, - 88))
   \<and> 0 < cropHeight (visibleCrop 512 640 (- 88, - 88))
   \<and> max 0 (- 88) + cropWidth (visibleCrop 512 640 (- 88, - 88)) \<le> 512
   \<and> max 0 (- 88) + cropHeight (visibleCrop 512 640 (- 88, - 88)) \<le> 512"
proof -
  have a: "0 < cropWidth (visibleCrop 512 640 (- 88, - 88))"
    by (simp add: visibleCrop_def)
  have b: "0 < cropHeight (visibleCrop 512 640 (- 88, - 88))"
    by (simp add: visibleCrop_def)
  from a b cropped_layer_inside_canvas [OF a b] show ?thesis
    by simp
qed

section \<open>Properties of shadow colour selection\<close>

text \<open>
  C4 as stated fails: for a table with no entry, or with an empty entry, the code returns
  the name \<open>navy\<close> where the claim has the failure \<open>NoShadowColorAvailable\<close>.
\<close>

theorem shadow_color_fallback_counterexample:
  "getShadowColor noEntries ''aqua'' = Some ''navy''
   \<and> firstCandidateOrFail noEntries ''aqua'' = Inl NoShadowColorAvailable
   \<and> getShadowColor emptyAquaEntry ''aqua'' = Some ''navy''
   \<and> firstCandidateOrFail emptyAquaEntry ''aqua'' = Inl NoShadowColorAvailable"
  by code_simp

text \<open>
  A name that \<open>Object.prototype\<close> has is not missing from the table: for \<open>constructor\<close> and
  \<open>__proto__\<close> the function returns \<open>undefined\<close>, and no shadow colour is found for it.
\<close>

lemma getShadowColor_inherited:
  "getShadowColor noEntries ''constructor'' = None"
  "getShadowColor noEntries ''__proto__'' = None"
  "shadowRgbFor (sampleConfig\<lparr>shadowColorMap := noEntries\<rparr>) sampleEnv ''constructor'' = None"
  by code_simp+

text \<open>
  C4, amended: selection is a function of the table and the name; it looks up the
  lower-cased background name and returns the first candidate of a non-empty entry; for an
  empty entry, and for a missing entry whose name is not a member of \<open>Object.prototype\<close>, it
  returns the fallback name \<open>navy\<close>; it does not fail.
\<close>

theorem shadow_color_first_or_navy:
  "(colorMap (toLowerCase background) = Some (c # cs) \<longrightarrow>
      getShadowColor colorMap background = Some c)
   \<and> (colorMap (toLowerCase background) = None
        \<and> toLowerCase background \<notin> set objectPrototypeNames \<longrightarrow>
      getShadowColor colorMap background = Some ''navy'')
   \<and> (colorMap (toLowerCase background) = Some [] \<longrightarrow>
      getShadowColor colorMap background = Some ''navy'')"
  by (simp add: getShadowColor_def getProp_def Let_def)

theorem shadow_color_first_or_navy_witness:
  "shadowColorMap sampleConfig (toLowerCase ''Fuchsia'') = Some [''navy'', ''aqua'']
   \<and> getShadowColor (shadowColorMap sampleConfig) ''Fuchsia'' = Some ''navy''
   \<and> noEntries (toLowerCase ''aqua'') = None
   \<and> toLowerCase ''aqua'' \<notin> set objectPrototypeNames
   \<and> getShadowColor noEntries ''aqua'' = Some ''navy''
   \<and> emptyAquaEntry (toLowerCase ''aqua'') = Some []
   \<and> getShadowColor emptyAquaEntry ''aqua'' = Some ''navy''"
proof -
  have a: "shadowColorMap sampleConfig (toLowerCase ''Fuchsia'') = Some [''navy'', ''aqua'']"
    by code_simp
  have b: "noEntries (toLowerCase ''aqua'') = None"
    "toLowerCase ''aqua'' \<notin> set objectPrototypeNames"
    by code_simp+
  have c: "emptyAquaEntry (toLowerCase ''aqua'') = Some []"
    by code_simp
  from a b c
    shadow_color_first_or_navy [of "shadowColorMap sampleConfig" "''Fuchsia''" "''navy''" "[''aqua'']"]
    shadow_color_first_or_navy [of noEntries "''aqua''"]
    shadow_color_first_or_navy [of emptyAquaEntry "''aqua''"]
  show ?thesis
    by blast
qed

section \<open>Properties of placement and cropping\<close>

lemma shadowPosition_placed:
  "shadowPosition c s (- off, - off) = (placedAt c s off, placedAt c s off)"
  by (simp add: shadowPosition_def placedAt_def Let_def)

lemma visibleCrop_fields:
  "cropLeft (visibleCrop c s (px, py)) = max 0 (- px)"
  "cropTop (visibleCrop c s (px, py)) = max 0 (- py)"
  "cropRight (visibleCrop c s (px, py)) = min s (c - px)"
  "cropBottom (visibleCrop c s (px, py)) = min s (c - py)"
  "cropWidth (visibleCrop c s (px, py)) = min s (c - px) - max 0 (- px)"
  "cropHeight (visibleCrop c s (px, py)) = min s (c - py) - max 0 (- py)"
  by (simp_all add: visibleCrop_def Let_def)

lemma shadowSizeOf_pos: "1 \<le> shadowSizeOf fl config c"
  by (simp add: shadowSizeOf_def)

lemma plannedCrop_placed:
  "plannedCrop fl config c =
     visibleCrop c (shadowSizeOf fl config c)
       (placedAt c (shadowSizeOf fl config c) (flooredOffset fl (shadowOffset config) c),
        placedAt c (shadowSizeOf fl config c) (flooredOffset fl (shadowOffset config) c))"
  by (simp add: plannedCrop_def calculateShadowOffset_floored shadowPosition_placed)

text \<open>The extract call, if there is one, is accepted exactly for a positive visible region.\<close>

lemma extract_accepted_iff:
  assumes "1 \<le> s"
  shows "(case extractCall s (visibleCrop c s (px, py)) of
            None \<Rightarrow> True | Some area \<Rightarrow> extractAccepts s area)
         \<longleftrightarrow> 0 < cropWidth (visibleCrop c s (px, py)) \<and> 0 < cropHeight (visibleCrop c s (px, py))"
  using assms
  by (auto simp: extractCall_def needsCrop_def extractAccepts_def visibleCrop_fields)

lemma planned_extract_accepted_iff:
  "(case extractCall (shadowSizeOf fl config c) (plannedCrop fl config c) of
      None \<Rightarrow> True | Some area \<Rightarrow> extractAccepts (shadowSizeOf fl config c) area)
   \<longleftrightarrow> 0 < cropWidth (plannedCrop fl config c) \<and> 0 < cropHeight (plannedCrop fl config c)"
  unfolding plannedCrop_placed by (rule extract_accepted_iff [OF shadowSizeOf_pos])

lemma buildShadow_result:
  assumes "shadowRgbFor config env colorName = Some shadowRgb"
  shows "buildShadow fl config env colorName c =
     (if 0 < cropWidth (plannedCrop fl config c) \<and> 0 < cropHeight (plannedCrop fl config c)
      then Inr (plannedLayer fl config env shadowRgb c)
      else Inl ExtractFailed)"
proof -
  have pos: "\<not> max 1 \<lfloor>fl (of_int c * shadowSizeMultiplier config)\<rfloor> \<le> 0"
    by simp
  have b: "buildShadow fl config env colorName c =
      (case extractCall (shadowSizeOf fl config c) (plannedCrop fl config c) of
         None \<Rightarrow> Inr (plannedLayer fl config env shadowRgb c)
       | Some area \<Rightarrow>
           if extractAccepts (shadowSizeOf fl config c) area
           then Inr (plannedLayer fl config env shadowRgb c) else Inl ExtractFailed)"
    using assms pos
    unfolding buildShadow_def plannedLayer_def plannedCrop_def shadowSizeOf_def Let_def
      calculateShadowOffset_floored shadowPosition_placed
    by (simp split: option.split)
  show ?thesis
  proof (cases "extractCall (shadowSizeOf fl config c) (plannedCrop fl config c)")
    case None
    with planned_extract_accepted_iff [of fl config c] show ?thesis
      by (simp add: b)
  next
    case (Some area)
    with planned_extract_accepted_iff [of fl config c] show ?thesis
      by (simp add: b)
  qed
qed

lemma buildShadow_no_colour:
  "shadowRgbFor config env colorName = None \<Longrightarrow>
     buildShadow fl config env colorName c = Inl ShadowColorParse"
  by (simp add: buildShadow_def)

lemma buildShadow_Inr:
  assumes "buildShadow fl config env colorName c = Inr sh"
  shows "shadowSide sh = shadowSizeOf fl config c
    \<and> extractArea sh = extractCall (shadowSizeOf fl config c) (plannedCrop fl config c)
    \<and> finalShadowX sh =
        max 0 (placedAt c (shadowSizeOf fl config c) (flooredOffset fl (shadowOffset config) c))
    \<and> finalShadowY sh =
        max 0 (placedAt c (shadowSizeOf fl config c) (flooredOffset fl (shadowOffset config) c))
    \<and> 0 < cropWidth (plannedCrop fl config c) \<and> 0 < cropHeight (plannedCrop fl config c)"
proof (cases "shadowRgbFor config env colorName")
  case None
  with assms show ?thesis
    by (simp add: buildShadow_no_colour)
next
  case (Some shadowRgb)
  from assms show ?thesis
    unfolding buildShadow_result [OF Some]
    by (auto simp: plannedLayer_def split: if_splits)
qed

text \<open>
  C5: for every canvas size, shadow size and offset, the placement on each axis is
  \<open>floor ((C - S) / 2) - offset\<close>; the visible rectangle is
  \<open>cropLeft = max 0 (- placed)\<close>, \<open>cropTop = max 0 (- placed)\<close>,
  \<open>cropRight = min S (C - placed)\<close>, \<open>cropBottom = min S (C - placed)\<close>; and the shadow layer
  that \<open>generateAvatar\<close> builds is extracted by these values and put at
  \<open>(max 0 placed, max 0 placed)\<close>.
\<close>

theorem placement_and_crop_formulas:
  "shadowPosition c s (- off, - off) = ((c - s) div 2 - off, (c - s) div 2 - off)
   \<and> cropLeft (visibleCrop c s (px, py)) = max 0 (- px)
   \<and> cropTop (visibleCrop c s (px, py)) = max 0 (- py)
   \<and> cropRight (visibleCrop c s (px, py)) = min s (c - px)
   \<and> cropBottom (visibleCrop c s (px, py)) = min s (c - py)
   \<and> (buildShadow fl config env colorName c = Inr sh \<longrightarrow>
        calculateShadowOffset fl (shadowOffset config) c = (- off, - off) \<longrightarrow>
          finalShadowX sh = max 0 ((c - shadowSide sh) div 2 - off)
          \<and> finalShadowY sh = max 0 ((c - shadowSide sh) div 2 - off)
          \<and> extractArea sh =
              extractCall (shadowSide sh)
                (visibleCrop c (shadowSide sh)
                   ((c - shadowSide sh) div 2 - off, (c - shadowSide sh) div 2 - off)))"
proof (intro conjI impI)
  show "shadowPosition c s (- off, - off) = ((c - s) div 2 - off, (c - s) div 2 - off)"
    by (simp add: shadowPosition_placed placedAt_def)
next
  assume sh: "buildShadow fl config env colorName c = Inr sh"
    and off: "calculateShadowOffset fl (shadowOffset config) c = (- off, - off)"
  from off have o: "flooredOffset fl (shadowOffset config) c = off"
    by (simp add: calculateShadowOffset_floored)
  note f = buildShadow_Inr [OF sh, unfolded o plannedCrop_placed placedAt_def]
  from f show "finalShadowX sh = max 0 ((c - shadowSide sh) div 2 - off)"
    by simp
  from f show "finalShadowY sh = max 0 ((c - shadowSide sh) div 2 - off)"
    by simp
  from f show "extractArea sh =
      extractCall (shadowSide sh)
        (visibleCrop c (shadowSide sh)
           ((c - shadowSide sh) div 2 - off, (c - shadowSide sh) div 2 - off))"
    by simp
qed (simp_all add: visibleCrop_fields)

lemma sample_shadow_colour:
  "shadowRgbFor sampleConfig sampleEnv ''aqua'' = Some \<lparr>r = 30, g = 42, b = 69\<rparr>"
  by code_simp

lemma sample_at_16:
  "calculateShadowOffset id (shadowOffset sampleConfig) 16 = (- 8, - 8)"
  "shadowSizeOf id sampleConfig 16 = 20"
  "0 < cropWidth (plannedCrop id sampleConfig 16) \<and> 0 < cropHeight (plannedCrop id sampleConfig 16)"
  by code_simp+

theorem placement_and_crop_formulas_witness:
  "\<exists>sh. buildShadow id sampleConfig sampleEnv ''aqua'' 16 = Inr sh
      \<and> calculateShadowOffset id (shadowOffset sampleConfig) 16 = (- 8, - 8)
      \<and> shadowSide sh = 20
      \<and> finalShadowX sh = 0 \<and> finalShadowY sh = 0
      \<and> extractArea sh = Some (10, 10, 10, 10)"
proof -
  obtain sh where sh: "buildShadow id sampleConfig sampleEnv ''aqua'' 16 = Inr sh"
    using buildShadow_result [OF sample_shadow_colour, of id 16] sample_at_16(3) by simp
  have side: "shadowSide sh = 20"
    using buildShadow_Inr [OF sh] by (simp add: sample_at_16)
  from placement_and_crop_formulas [of 16 20 8 0 0 id sampleConfig sampleEnv "''aqua''" sh]
    sh sample_at_16(1) side
  have "finalShadowX sh = 0 \<and> finalShadowY sh = 0
      \<and> extractArea sh = extractCall 20 (visibleCrop 16 20 (- 10, - 10))"
    by simp
  moreover have "extractCall 20 (visibleCrop 16 20 (- 10, - 10)) = Some (10, 10, 10, 10)"
    by (simp add: extractCall_def needsCrop_def visibleCrop_def)
  ultimately show ?thesis
    using sh sample_at_16(1) side by simp
qed

section \<open>Properties of the visible region\<close>

lemma half_sum: "(c + s) div 2 = s + (c - s) div (2::int)"
  by presburger

lemma visible_iff:
  assumes "1 \<le> c" and "1 \<le> s" and "0 \<le> off"
  shows "0 < min s (c - placedAt c s off) - max 0 (- placedAt c s off) \<longleftrightarrow> off < (c + s) div 2"
proof -
  define d where "d = (c - s) div 2"
  have d: "2 * d \<le> c - s" "c - s \<le> 2 * d + 1"
    unfolding d_def by presburger+
  have h: "(c + s) div 2 = s + d"
    unfolding d_def by (rule half_sum)
  have p: "placedAt c s off = d - off"
    by (simp add: placedAt_def d_def)
  show ?thesis
    unfolding h p using assms d by (simp add: min_def max_def) linarith
qed

lemma shadowSize_covers:
  assumes "1 < shadowSizeMultiplier config" and "mono fl" and "fl (of_int c) = of_int c" and "1 \<le> c"
  shows "c \<le> shadowSizeOf fl config c"
proof -
  from assms(1,4) have "(of_int c :: rat) \<le> of_int c * shadowSizeMultiplier config"
    by (simp add: mult_le_cancel_left1)
  with assms(2) have "fl (of_int c) \<le> fl (of_int c * shadowSizeMultiplier config)"
    by (rule monoD)
  with assms(3) have "of_int c \<le> fl (of_int c * shadowSizeMultiplier config)"
    by simp
  then have "c \<le> \<lfloor>fl (of_int c * shadowSizeMultiplier config)\<rfloor>"
    by (simp add: le_floor_iff)
  then show ?thesis
    by (simp add: shadowSizeOf_def)
qed

lemma generateAvatar_Inr_shadow:
  assumes "generateAvatar fl config env colorName (Num (of_int c)) True = Inr av"
  shows "\<exists>sh. buildShadow fl config env colorName c = Inr sh"
  using assms
  by (auto simp: generateAvatar_def Let_def split: if_splits option.splits sum.splits)

text \<open>
  C3 as stated fails: with the sample configuration (size multiplier 1.25, minimum offset 8
  in the small band) and canvas size 1, the shadow is 1 pixel wide, it is placed at
  \<open>(-8, -8)\<close>, and the visible width and height are \<open>-7\<close>, not positive; the library's
  \<open>extract\<close> rejects the area \<open>(8, 8, -7, -7)\<close> and \<open>generateAvatar\<close> fails with that error.
\<close>

theorem empty_region_counterexample:
  "flooredOffset id (shadowOffset sampleConfig) 1 = 8
   \<and> shadowSizeOf id sampleConfig 1 = 1
   \<and> 1 < shadowSizeMultiplier sampleConfig
   \<and> cropWidth (plannedCrop id sampleConfig 1) = - 7
   \<and> cropHeight (plannedCrop id sampleConfig 1) = - 7
   \<and> extractCall 1 (plannedCrop id sampleConfig 1) = Some (8, 8, - 7, - 7)
   \<and> generateAvatar id sampleConfig sampleEnv ''aqua'' (Num 1) True = Inl ExtractFailed"
  by code_simp

text \<open>
  C3, amended: for a canvas size of at least 1, the shadow size
  \<open>max 1 (floor (C * multiplier))\<close> and a tiered offset that is not negative, the visible
  width and height are both positive exactly when the offset is less than
  \<open>floor ((C + S) / 2)\<close>; with a multiplier above 1 the shadow covers the canvas and an
  offset below the canvas size is enough. For every input where the width or the height is
  not positive, no shadow layer and no avatar is produced: the guarded \<open>extract\<close> call of the
  image library rejects the area, and that error is what the pipeline raises once the
  shadow colour has been found.
\<close>

theorem visible_region_condition:
  "(1 \<le> c \<and> 0 \<le> flooredOffset fl (shadowOffset config) c \<longrightarrow>
      ((0 < cropWidth (plannedCrop fl config c) \<and> 0 < cropHeight (plannedCrop fl config c))
         \<longleftrightarrow> flooredOffset fl (shadowOffset config) c < (c + shadowSizeOf fl config c) div 2))
   \<and> (1 \<le> c \<and> 0 \<le> flooredOffset fl (shadowOffset config) c
        \<and> 1 < shadowSizeMultiplier config \<and> mono fl \<and> fl (of_int c) = of_int c
        \<and> flooredOffset fl (shadowOffset config) c < c
      \<longrightarrow> 0 < cropWidth (plannedCrop fl config c) \<and> 0 < cropHeight (plannedCrop fl config c))
   \<and> (cropWidth (plannedCrop fl config c) \<le> 0 \<or> cropHeight (plannedCrop fl config c) \<le> 0
      \<longrightarrow> (\<forall>sh. buildShadow fl config env colorName c \<noteq> Inr sh)
          \<and> (\<forall>av. generateAvatar fl config env colorName (Num (of_int c)) True \<noteq> Inr av)
          \<and> (shadowRgbFor config env colorName \<noteq> None
                \<longrightarrow> buildShadow fl config env colorName c = Inl ExtractFailed))"
proof -
  let ?s = "shadowSizeOf fl config c"
  let ?off = "flooredOffset fl (shadowOffset config) c"
  let ?crop = "plannedCrop fl config c"
  have s: "1 \<le> ?s"
    by (rule shadowSizeOf_pos)
  have w: "cropWidth ?crop = min ?s (c - placedAt c ?s ?off) - max 0 (- placedAt c ?s ?off)"
    and h: "cropHeight ?crop = min ?s (c - placedAt c ?s ?off) - max 0 (- placedAt c ?s ?off)"
    by (simp_all add: plannedCrop_placed visibleCrop_fields)
  have iff: "(0 < cropWidth ?crop \<and> 0 < cropHeight ?crop) \<longleftrightarrow> ?off < (c + ?s) div 2"
    if "1 \<le> c \<and> 0 \<le> ?off"
    unfolding w h using that visible_iff [OF _ s, of c ?off] by simp
  have cover: "0 < cropWidth ?crop \<and> 0 < cropHeight ?crop"
    if "1 \<le> c \<and> 0 \<le> ?off \<and> 1 < shadowSizeMultiplier config \<and> mono fl \<and> fl (of_int c) = of_int c
        \<and> ?off < c"
  proof -
    from that have "c \<le> ?s"
      using shadowSize_covers [of config fl c] by blast
    with that have "?off < (c + ?s) div 2"
      by linarith
    with iff that show ?thesis
      by simp
  qed
  have none: "buildShadow fl config env colorName c \<noteq> Inr sh"
    if "cropWidth ?crop \<le> 0 \<or> cropHeight ?crop \<le> 0" for sh
    using that buildShadow_Inr [of fl config env colorName c sh] by auto
  have noav: "generateAvatar fl config env colorName (Num (of_int c)) True \<noteq> Inr av"
    if "cropWidth ?crop \<le> 0 \<or> cropHeight ?crop \<le> 0" for av
    using none [OF that] generateAvatar_Inr_shadow [of fl config env colorName c av] by blast
  have failed: "buildShadow fl config env colorName c = Inl ExtractFailed"
    if "cropWidth ?crop \<le> 0 \<or> cropHeight ?crop \<le> 0"
      and "shadowRgbFor config env colorName \<noteq> None"
  proof -
    from that(2) obtain shadowRgb where "shadowRgbFor config env colorName = Some shadowRgb"
      by auto
    from buildShadow_result [OF this, of fl c] that(1) show ?thesis
      by auto
  qed
  from iff cover none noav failed show ?thesis
    by blast
qed

lemma sample_at_1:
  "flooredOffset id (shadowOffset sampleConfig) 1 = 8"
  "shadowSizeOf id sampleConfig 1 = 1"
  "cropWidth (plannedCrop id sampleConfig 1) = - 7"
  by code_simp+

lemma sample_at_512:
  "flooredOffset id (shadowOffset sampleConfig) 512 = 24"
  "shadowSizeOf id sampleConfig 512 = 640"
  "shadowSizeMultiplier sampleConfig = 5 / 4"
  by code_simp+

theorem visible_region_condition_witness:
  "(1::int) \<le> 512 \<and> 0 \<le> flooredOffset id (shadowOffset sampleConfig) 512
   \<and> 1 < shadowSizeMultiplier sampleConfig \<and> mono (id :: rat \<Rightarrow> rat)
   \<and> flooredOffset id (shadowOffset sampleConfig) 512 < 512
   \<and> 0 < cropWidth (plannedCrop id sampleConfig 512) \<and> 0 < cropHeight (plannedCrop id sampleConfig 512)
   \<and> flooredOffset id (shadowOffset sampleConfig) 512 < (512 + shadowSizeOf id sampleConfig 512) div 2
   \<and> cropWidth (plannedCrop id sampleConfig 1) \<le> 0
   \<and> shadowRgbFor sampleConfig sampleEnv ''aqua'' \<noteq> None
   \<and> buildShadow id sampleConfig sampleEnv ''aqua'' 1 = Inl ExtractFailed"
proof -
  have a: "(1::int) \<le> 512" "0 \<le> flooredOffset id (shadowOffset sampleConfig) 512"
    by (simp_all add: sample_at_512)
  have b: "1 < shadowSizeMultiplier sampleConfig" "mono (id :: rat \<Rightarrow> rat)"
    "id (of_int 512 :: rat) = of_int 512" "flooredOffset id (shadowOffset sampleConfig) 512 < 512"
    by (simp_all add: sample_at_512 mono_def)
  have d: "cropWidth (plannedCrop id sampleConfig 1) \<le> 0"
    by (simp add: sample_at_1)
  have e: "shadowRgbFor sampleConfig sampleEnv ''aqua'' \<noteq> None"
    by (simp add: sample_shadow_colour)
  from visible_region_condition [of 512 id sampleConfig sampleEnv "''aqua''"] a b
  have big: "0 < cropWidth (plannedCrop id sampleConfig 512) \<and> 0 < cropHeight (plannedCrop id sampleConfig 512)"
    by blast
  with visible_region_condition [of 512 id sampleConfig sampleEnv "''aqua''"] a
  have lt: "flooredOffset id (shadowOffset sampleConfig) 512 < (512 + shadowSizeOf id sampleConfig 512) div 2"
    by blast
  from visible_region_condition [of 1 id sampleConfig sampleEnv "''aqua''"] d e
  have small: "buildShadow id sampleConfig sampleEnv ''aqua'' 1 = Inl ExtractFailed"
    by blast
  from a b d e big lt small show ?thesis
    by simp
qed

section \<open>Properties of the size validation\<close>

lemma size_check_iff:
  "(lessEqZero sz \<or> \<not> isInteger sz) \<longleftrightarrow> \<not> (\<exists>n::int. 0 < n \<and> sz = Num (of_int n))"
proof (cases sz)
  case (Num q)
  show ?thesis
  proof
    assume "lessEqZero sz \<or> \<not> isInteger sz"
    with Num have "q \<le> 0 \<or> of_int \<lfloor>q\<rfloor> \<noteq> q"
      by (simp add: lessEqZero_def isInteger_def)
    then show "\<not> (\<exists>n::int. 0 < n \<and> sz = Num (of_int n))"
      using Num by auto
  next
    assume n: "\<not> (\<exists>n::int. 0 < n \<and> sz = Num (of_int n))"
    show "lessEqZero sz \<or> \<not> isInteger sz"
    proof (rule ccontr)
      assume "\<not> (lessEqZero sz \<or> \<not> isInteger sz)"
      with Num have q: "0 < q" "of_int \<lfloor>q\<rfloor> = q"
        by (simp_all add: lessEqZero_def isInteger_def)
      then have "0 < \<lfloor>q\<rfloor>"
        by (metis of_int_0_less_iff)
      with q(2) Num n show False
        by metis
    qed
  qed
qed (simp_all add: lessEqZero_def isInteger_def)

lemma buildShadow_not_InvalidSize: "buildShadow fl config env colorName c \<noteq> Inl InvalidSize"
  by (simp add: buildShadow_def Let_def split: option.splits)

text \<open>
  C8 as stated fails: the portrait file and the colour name are checked before the size, so
  an invalid size with a missing portrait, or with an unknown colour name, gives the error
  of the earlier check and not the invalid-size error.
\<close>

theorem size_error_precedence_counterexample:
  "generateAvatar id sampleConfig missingPortraitEnv ''aqua'' NaN True = Inl PortraitNotFound
   \<and> generateAvatar id sampleConfig missingPortraitEnv ''aqua'' NaN True \<noteq> Inl InvalidSize
   \<and> generateAvatar id sampleConfig sampleEnv ''purple'' (Num 0) True = Inl InvalidColor
   \<and> generateAvatar id sampleConfig sampleEnv ''purple'' (Num 0) True \<noteq> Inl InvalidSize"
  by code_simp

text \<open>
  C8, amended: when the requested size is not a positive integer (zero, negative,
  fractional, \<open>NaN\<close> or infinite), \<open>generateAvatar\<close> fails, so no canvas is built; the checks
  run in the order portrait file, colour name, size, and the failure is the first of: the
  portrait-not-found error, the invalid-colour error, the invalid-size error. For every
  positive integer the size validation passes: the result is never the invalid-size error.
\<close>

theorem invalid_size_rejected:
  "(\<not> (\<exists>n::int. 0 < n \<and> sz = Num (of_int n)) \<longrightarrow>
      generateAvatar fl config env colorName sz withShadow =
        (if \<not> portraitExists env then Inl PortraitNotFound
         else if \<not> truthy (getProp (colors env) (toLowerCase colorName)) then Inl InvalidColor
         else Inl InvalidSize))
   \<and> ((\<exists>n::int. 0 < n \<and> sz = Num (of_int n)) \<longrightarrow>
        generateAvatar fl config env colorName sz withShadow \<noteq> Inl InvalidSize)"
proof (intro conjI impI)
  assume "\<not> (\<exists>n::int. 0 < n \<and> sz = Num (of_int n))"
  then have bad: "lessEqZero sz \<or> \<not> isInteger sz"
    using size_check_iff [of sz] by blast
  then show "generateAvatar fl config env colorName sz withShadow =
        (if \<not> portraitExists env then Inl PortraitNotFound
         else if \<not> truthy (getProp (colors env) (toLowerCase colorName)) then Inl InvalidColor
         else Inl InvalidSize)"
    by (auto simp: generateAvatar_def Let_def)
next
  assume "\<exists>n::int. 0 < n \<and> sz = Num (of_int n)"
  then have ok: "\<not> (lessEqZero sz \<or> \<not> isInteger sz)"
    using size_check_iff [of sz] by blast
  then show "generateAvatar fl config env colorName sz withShadow \<noteq> Inl InvalidSize"
    using buildShadow_not_InvalidSize [of fl config env colorName]
    by (auto simp: generateAvatar_def Let_def split: option.splits sum.splits)
qed

theorem invalid_size_rejected_witness:
  "\<not> (\<exists>n::int. 0 < n \<and> NaN = Num (of_int n))
   \<and> generateAvatar id sampleConfig sampleEnv ''Aqua'' NaN True = Inl InvalidSize
   \<and> generateAvatar id sampleConfig missingPortraitEnv ''Aqua'' NaN True = Inl PortraitNotFound
   \<and> \<not> (\<exists>n::int. 0 < n \<and> Num (1 / 2) = Num (of_int n))
   \<and> generateAvatar id sampleConfig sampleEnv ''Aqua'' (Num (1 / 2)) True = Inl InvalidSize
   \<and> generateAvatar id sampleConfig sampleEnv ''teal'' (Num (1 / 2)) True = Inl InvalidColor
   \<and> (\<exists>n::int. 0 < n \<and> Num 512 = Num (of_int n))
   \<and> generateAvatar id sampleConfig sampleEnv ''Aqua'' (Num 512) True \<noteq> Inl InvalidSize"
proof -
  have a: "\<not> (\<exists>n::int. 0 < n \<and> NaN = Num (of_int n))"
    by simp
  have b: "portraitExists sampleEnv" "truthy (getProp (colors sampleEnv) (toLowerCase ''Aqua''))"
    "\<not> portraitExists missingPortraitEnv" "\<not> truthy (getProp (colors sampleEnv) (toLowerCase ''teal''))"
    by code_simp+
  have c: "\<not> (\<exists>n::int. 0 < n \<and> Num (1 / 2) = Num (of_int n))"
    using size_check_iff [of "Num (1 / 2)"] by (simp add: lessEqZero_def isInteger_def)
  have d: "\<exists>n::int. 0 < n \<and> Num 512 = Num (of_int n)"
    by (rule exI [of _ 512]) simp
  from a b c d
    invalid_size_rejected [of NaN id sampleConfig sampleEnv "''Aqua''" True]
    invalid_size_rejected [of NaN id sampleConfig missingPortraitEnv "''Aqua''" True]
    invalid_size_rejected [of "Num (1 / 2)" id sampleConfig sampleEnv "''Aqua''" True]
    invalid_size_rejected [of "Num (1 / 2)" id sampleConfig sampleEnv "''teal''" True]
    invalid_size_rejected [of "Num 512" id sampleConfig sampleEnv "''Aqua''" True]
  show ?thesis
    by simp
qed

end
